theory Spec2Isabelle
  imports Main
begin

section \<open>Values, exceptions and the outside world\<close>

text \<open>
  The program of \<^verbatim>\<open>src/main.py\<close> drives a browser, reads and writes two files and calls
  a REST service. Everything outside the Python process is an environment that answers
  each call; the answer may depend on all calls made so far. Python values that cross the
  process boundary (pickled session data, JSON cookies) are values of \<open>pyval\<close>.
\<close>

datatype pyval =
    PNone
  | PBool bool
  | PInt int
  | PStr string
  | PList "pyval list"
  | PDict "(string \<times> pyval) list"

text \<open>
  The exceptions the program can meet. All of them are subclasses of Python's
  \<^verbatim>\<open>Exception\<close>; \<^verbatim>\<open>KeyboardInterrupt\<close> and \<^verbatim>\<open>SystemExit\<close>, which no
  collaborator raises, are outside the model.
\<close>

datatype exn =
    TimeoutException
  | NoSuchElementException
  | WebDriverException
  | OSError
  | FileNotFoundError
  | UnpicklingError
  | JSONDecodeError
  | AttributeError
  | TypeError
  | ConnectionError

type_synonym elem = nat

datatype locator = ByXPath string | ByName string

text \<open>
  One constructor per kind of call that leaves the process. Sleeping bounds are in
  milliseconds: \<^verbatim>\<open>human_delay(3, 5)\<close> is \<open>Sleep 3000 5000\<close> and
  \<^verbatim>\<open>time.sleep(random.uniform(0.05, 0.15))\<close> is \<open>Sleep 50 150\<close>.
\<close>

datatype call =
    Sleep nat nat
  | Get string
  | Refresh
  | WaitClickable locator nat
  | WaitPresent locator nat
  | FindElement locator
  | FindElements locator
  | Click elem
  | Clear elem
  | SendKeys elem char
  | ElemText elem
  | AddCookie pyval
  | GetCookies
  | ExecuteScript string
  | CurrentUrl
  | Quit
  | MakeDirs string
  | InstallChromeDriver
  | StartChrome "string list"
  | ReadFile string
  | OpenWrite string
  | WriteData string
  | HttpGet string "(string \<times> string) list"
  | HttpPost string "(string \<times> string) list" "(string \<times> string) list"
  | LoadDotenv

type_synonym event = "call \<times> exn option"

datatype file_content = Pickled pyval | JsonText pyval | Unparsable

text \<open>
  A Python set of hashable values, kept as the list of its members. Among the values of
  \<open>pyval\<close> the hashable ones are \<^verbatim>\<open>None\<close>, booleans, integers and strings, and Python
  identifies \<^verbatim>\<open>True\<close> with \<open>1\<close> and \<^verbatim>\<open>False\<close> with \<open>0\<close> as set members.
\<close>

datatype hkey = HNone | HInt int | HStr string

record world =
  trace :: "event list"
  files :: "string \<Rightarrow> file_content option"
  driver :: bool
  processed_messages :: "hkey list"

record env =
  fails :: "event list \<Rightarrow> call \<Rightarrow> exn option"
  elem_of :: "event list \<Rightarrow> call \<Rightarrow> elem"
  elems_of :: "event list \<Rightarrow> call \<Rightarrow> elem list"
  text_of :: "event list \<Rightarrow> call \<Rightarrow> string"
  cookies_of :: "event list \<Rightarrow> call \<Rightarrow> pyval"
  status_of :: "event list \<Rightarrow> call \<Rightarrow> int"
  choice_of :: "event list \<Rightarrow> nat"
  now_of :: "event list \<Rightarrow> string"
  getenv :: "string \<Rightarrow> string option"
  hash_of :: "string \<Rightarrow> int"
  search_of :: "string \<Rightarrow> string option"

record bot =
  username :: string
  password :: string
  buffer_token :: string
  buffer_profile_id :: string

record message =
  msg_id :: string
  msg_content :: string
  msg_url :: "string option"

section \<open>Programs: state passing with exceptions\<close>

type_synonym 'a prog = "world \<Rightarrow> (exn + 'a) \<times> world"

definition returnE :: "'a \<Rightarrow> 'a prog" where
  "returnE x w = (Inr x, w)"

definition raiseE :: "exn \<Rightarrow> 'a prog" where
  "raiseE e w = (Inl e, w)"

definition bindE :: "'a prog \<Rightarrow> ('a \<Rightarrow> 'b prog) \<Rightarrow> 'b prog" where
  "bindE m f w = (case m w of (Inl e, w') \<Rightarrow> (Inl e, w') | (Inr x, w') \<Rightarrow> f x w')"

definition thenE :: "unit prog \<Rightarrow> 'b prog \<Rightarrow> 'b prog" where
  "thenE m n = bindE m (\<lambda>_. n)"

text \<open>
  \<^verbatim>\<open>try: m except C: h\<close>, where \<open>catches\<close> says which exceptions the clause \<open>C\<close>
  matches. The handlers of the source use the exception only in a log line.
\<close>

definition try_except :: "'a prog \<Rightarrow> (exn \<Rightarrow> bool) \<Rightarrow> 'a prog \<Rightarrow> 'a prog" where
  "try_except m catches h w =
     (case m w of
        (Inl e, w') \<Rightarrow> if catches e then h w' else (Inl e, w')
      | (Inr x, w') \<Rightarrow> (Inr x, w'))"

text \<open>
  \<^verbatim>\<open>try: m finally: f\<close>: \<open>f\<close> runs whatever \<open>m\<close> did, and an exception of \<open>f\<close>
  replaces the result of \<open>m\<close>.
\<close>

definition finallyE :: "'a prog \<Rightarrow> unit prog \<Rightarrow> 'a prog" where
  "finallyE m f w =
     (case m w of (r, w') \<Rightarrow>
        (case f w' of (Inl e, w'') \<Rightarrow> (Inl e, w'') | (Inr _, w'') \<Rightarrow> (r, w'')))"

definition any_exception :: "exn \<Rightarrow> bool" where
  "any_exception e = True"

definition is_timeout :: "exn \<Rightarrow> bool" where
  "is_timeout e = (e = TimeoutException)"

definition log_event :: "call \<Rightarrow> exn option \<Rightarrow> world \<Rightarrow> world" where
  "log_event c r w = w\<lparr>trace := trace w @ [(c, r)]\<rparr>"

text \<open>A call that returns a value chosen by the environment, or raises.\<close>

definition ask :: "env \<Rightarrow> call \<Rightarrow> (event list \<Rightarrow> call \<Rightarrow> 'a) \<Rightarrow> 'a prog" where
  "ask en c val w =
     (case fails en (trace w) c of
        Some e \<Rightarrow> (Inl e, log_event c (Some e) w)
      | None \<Rightarrow> (Inr (val (trace w) c), log_event c None w))"

definition invoke :: "env \<Rightarrow> call \<Rightarrow> unit prog" where
  "invoke en c = ask en c (\<lambda>_ _. ())"

text \<open>
  A method call on \<^verbatim>\<open>self.driver\<close>. Until \<^verbatim>\<open>setup_driver\<close> has stored a driver the
  attribute is \<^verbatim>\<open>None\<close>: looking the method up raises \<^verbatim>\<open>AttributeError\<close> and no call
  leaves the process. \<^verbatim>\<open>WebDriverWait(self.driver, t).until(...)\<close> fails in the same way
  at its first poll.
\<close>

definition driver_ask :: "env \<Rightarrow> call \<Rightarrow> (event list \<Rightarrow> call \<Rightarrow> 'a) \<Rightarrow> 'a prog" where
  "driver_ask en c val w = (if driver w then ask en c val w else (Inl AttributeError, w))"

definition driver_invoke :: "env \<Rightarrow> call \<Rightarrow> unit prog" where
  "driver_invoke en c = driver_ask en c (\<lambda>_ _. ())"

text \<open>\<^verbatim>\<open>time.sleep\<close> of a positive duration cannot fail.\<close>

definition sleep :: "nat \<Rightarrow> nat \<Rightarrow> unit prog" where
  "sleep lo hi w = (Inr (), log_event (Sleep lo hi) None w)"

text \<open>
  \<^verbatim>\<open>human_delay(min_seconds, max_seconds)\<close>; the field \<^verbatim>\<open>last_action_time\<close> it sets
  is never read and is not kept.
\<close>

definition human_delay :: "nat \<Rightarrow> nat \<Rightarrow> unit prog" where
  "human_delay min_seconds max_seconds = sleep (1000 * min_seconds) (1000 * max_seconds)"

subsection \<open>Files\<close>

fun unpickle :: "file_content \<Rightarrow> pyval option" where
  "unpickle (Pickled v) = Some v"
| "unpickle _ = None"

fun unjson :: "file_content \<Rightarrow> pyval option" where
  "unjson (JsonText v) = Some v"
| "unjson _ = None"

text \<open>
  \<^verbatim>\<open>with open(p, mode) as f: v = load(f)\<close> as one call: it raises what the environment
  says (a permission or I/O error), \<^verbatim>\<open>FileNotFoundError\<close> when the file is absent, and
  the decoder's error when the content does not deserialize.
\<close>

definition load_file :: "env \<Rightarrow> string \<Rightarrow> (file_content \<Rightarrow> pyval option) \<Rightarrow> exn \<Rightarrow> pyval prog" where
  "load_file en p decode err w =
     (case fails en (trace w) (ReadFile p) of
        Some e \<Rightarrow> (Inl e, log_event (ReadFile p) (Some e) w)
      | None \<Rightarrow>
         (case files w p of
            None \<Rightarrow> (Inl FileNotFoundError, log_event (ReadFile p) (Some FileNotFoundError) w)
          | Some content \<Rightarrow>
             (case decode content of
                None \<Rightarrow> (Inl err, log_event (ReadFile p) (Some err) w)
              | Some v \<Rightarrow> (Inr v, log_event (ReadFile p) None w))))"

definition pickle_load :: "env \<Rightarrow> string \<Rightarrow> pyval prog" where
  "pickle_load en p = load_file en p unpickle UnpicklingError"

definition json_load :: "env \<Rightarrow> string \<Rightarrow> pyval prog" where
  "json_load en p = load_file en p unjson JSONDecodeError"

text \<open>\<^verbatim>\<open>open(p, 'w')\<close> truncates the file as soon as it succeeds.\<close>

definition open_write :: "env \<Rightarrow> string \<Rightarrow> unit prog" where
  "open_write en p w =
     (case fails en (trace w) (OpenWrite p) of
        Some e \<Rightarrow> (Inl e, log_event (OpenWrite p) (Some e) w)
      | None \<Rightarrow> (Inr (), (log_event (OpenWrite p) None w)\<lparr>files := (files w)(p \<mapsto> Unparsable)\<rparr>))"

definition write_data :: "env \<Rightarrow> string \<Rightarrow> file_content \<Rightarrow> unit prog" where
  "write_data en p content w =
     (case fails en (trace w) (WriteData p) of
        Some e \<Rightarrow> (Inl e, log_event (WriteData p) (Some e) w)
      | None \<Rightarrow> (Inr (), (log_event (WriteData p) None w)\<lparr>files := (files w)(p \<mapsto> content)\<rparr>))"

definition dump_file :: "env \<Rightarrow> string \<Rightarrow> file_content \<Rightarrow> unit prog" where
  "dump_file en p content = thenE (open_write en p) (write_data en p content)"

definition path_exists :: "world \<Rightarrow> string \<Rightarrow> bool" where
  "path_exists w p = (files w p \<noteq> None)"

subsection \<open>Python sets and dictionaries\<close>

fun to_key :: "pyval \<Rightarrow> hkey option" where
  "to_key PNone = Some HNone"
| "to_key (PBool b) = Some (HInt (if b then 1 else 0))"
| "to_key (PInt i) = Some (HInt i)"
| "to_key (PStr s) = Some (HStr s)"
| "to_key (PList vs) = None"
| "to_key (PDict kvs) = None"

fun of_key :: "hkey \<Rightarrow> pyval" where
  "of_key HNone = PNone"
| "of_key (HInt i) = PInt i"
| "of_key (HStr s) = PStr s"

text \<open>Iterating a value: lists give their items, strings their characters, dicts their keys.\<close>

fun py_iter :: "pyval \<Rightarrow> exn + pyval list" where
  "py_iter (PList vs) = Inr vs"
| "py_iter (PStr s) = Inr (map (\<lambda>c. PStr [c]) s)"
| "py_iter (PDict kvs) = Inr (map PStr (remdups (map fst kvs)))"
| "py_iter v = Inl TypeError"

fun keys_of :: "pyval list \<Rightarrow> hkey list option" where
  "keys_of [] = Some []"
| "keys_of (v # vs) =
     (case to_key v of
        None \<Rightarrow> None
      | Some k \<Rightarrow> (case keys_of vs of None \<Rightarrow> None | Some ks \<Rightarrow> Some (k # ks)))"

text \<open>\<^verbatim>\<open>set(v)\<close>: \<^verbatim>\<open>TypeError\<close> when \<open>v\<close> is not iterable or an item is unhashable.\<close>

definition py_set :: "pyval \<Rightarrow> exn + hkey list" where
  "py_set v =
     (case py_iter v of
        Inl e \<Rightarrow> Inl e
      | Inr vs \<Rightarrow> (case keys_of vs of None \<Rightarrow> Inl TypeError | Some ks \<Rightarrow> Inr (remdups ks)))"

definition set_add :: "hkey \<Rightarrow> hkey list \<Rightarrow> hkey list" where
  "set_add k ks = (if k \<in> set ks then ks else ks @ [k])"

text \<open>\<^verbatim>\<open>d.get(key, default)\<close>; a value that is not a dict has no such method.\<close>

fun dict_get :: "pyval \<Rightarrow> string \<Rightarrow> pyval \<Rightarrow> exn + pyval" where
  "dict_get (PDict kvs) key dflt =
     (case map_of kvs key of None \<Rightarrow> Inr dflt | Some v \<Rightarrow> Inr v)"
| "dict_get v key dflt = Inl AttributeError"

definition lift :: "exn + 'a \<Rightarrow> 'a prog" where
  "lift r w = (r, w)"

definition ifE :: "(world \<Rightarrow> bool) \<Rightarrow> 'a prog \<Rightarrow> 'a prog \<Rightarrow> 'a prog" where
  "ifE c m n w = (if c w then m w else n w)"

subsection \<open>Strings\<close>

text \<open>
  \<^verbatim>\<open>str.strip\<close>, \<^verbatim>\<open>str.lower\<close> and \<^verbatim>\<open>in\<close> on ASCII text; \<^verbatim>\<open>str(n)\<close> on integers.
\<close>

definition is_space :: "char \<Rightarrow> bool" where
  "is_space c =
     (c \<in> set [CHR 0x20, CHR 0x09, CHR 0x0A, CHR 0x0B, CHR 0x0C, CHR 0x0D,
                CHR 0x1C, CHR 0x1D, CHR 0x1E, CHR 0x1F])"

definition py_strip :: "string \<Rightarrow> string" where
  "py_strip s = rev (dropWhile is_space (rev (dropWhile is_space s)))"

definition lower_char :: "char \<Rightarrow> char" where
  "lower_char c =
     (let n = (of_char c :: nat) in if 65 \<le> n \<and> n \<le> 90 then char_of (n + 32) else c)"

definition py_lower :: "string \<Rightarrow> string" where
  "py_lower s = map lower_char s"

fun contains :: "string \<Rightarrow> string \<Rightarrow> bool" where
  "contains sub [] = (sub = [])"
| "contains sub (c # cs) = (take (length sub) (c # cs) = sub \<or> contains sub cs)"

function str_of_nat :: "nat \<Rightarrow> string" where
  "str_of_nat n =
     (if n < 10 then [char_of (48 + n)] else str_of_nat (n div 10) @ [char_of (48 + n mod 10)])"
  by pat_completeness auto
termination
  by (relation "measure id") auto

definition str_of_int :: "int \<Rightarrow> string" where
  "str_of_int z = (if z < 0 then CHR ''-'' # str_of_nat (nat (- z)) else str_of_nat (nat z))"

section \<open>The base bot: \<^verbatim>\<open>InstagramDMBot\<close>\<close>

definition instagram_url :: string where
  "instagram_url = ''https://www.instagram.com''"

definition login_url :: string where
  "login_url = ''https://www.instagram.com/accounts/login/''"

definition accept_xpath :: string where
  "accept_xpath = ''//button[contains(text(), 'Accept') or contains(text(), 'Allow')]''"

definition submit_xpath :: string where
  "submit_xpath = ''//button[@type='submit']''"

definition direct_xpath :: string where
  "direct_xpath = ''//a[contains(@href, '/direct/')]''"

definition not_now_xpath :: string where
  "not_now_xpath = ''//button[contains(text(), 'Not Now')]''"

definition not_now_cancel_xpath :: string where
  "not_now_cancel_xpath =
     ''//button[contains(text(), 'Not Now') or contains(text(), 'Cancel')]''"

definition dm_page_xpath :: string where
  "dm_page_xpath = ''//div[contains(@class, 'message') or contains(text(), 'Direct')]''"

definition conversation_xpath :: string where
  "conversation_xpath =
     ''//div[contains(@role, 'button') and contains(@class, 'conversation')]''"

definition message_xpath :: string where
  "message_xpath =
     ''//div[contains(@class, 'message') and contains(@data-testid, 'message')]''"

definition bearer :: "bot \<Rightarrow> (string \<times> string) list" where
  "bearer b = [(''Authorization'', ''Bearer '' @ buffer_token b)]"

definition test_buffer_connection :: "env \<Rightarrow> bot \<Rightarrow> bool prog" where
  "test_buffer_connection en b =
     try_except
       (bindE (ask en (HttpGet ''https://api.bufferapp.com/1/user.json'' (bearer b)) (status_of en))
          (\<lambda>status_code. if status_code = 200 then returnE True else returnE False))
       any_exception (returnE False)"

text \<open>
  The block
  \<^verbatim>\<open>try: btn = WebDriverWait(driver, 5).until(element_to_be_clickable(xpath)); btn.click();
  human_delay(2, 3)  except TimeoutException: pass\<close>,
  which occurs once in \<^verbatim>\<open>login_instagram\<close> and twice in \<^verbatim>\<open>handle_login_challenges\<close>.
\<close>

definition click_if_present :: "env \<Rightarrow> string \<Rightarrow> unit prog" where
  "click_if_present en xpath =
     try_except
       (bindE (driver_ask en (WaitClickable (ByXPath xpath) 5) (elem_of en))
          (\<lambda>btn. thenE (invoke en (Click btn)) (human_delay 2 3)))
       is_timeout (returnE ())"

definition handle_login_challenges :: "env \<Rightarrow> unit prog" where
  "handle_login_challenges en =
     try_except
       (thenE (click_if_present en not_now_xpath)
          (click_if_present en not_now_cancel_xpath))
       any_exception (returnE ())"

text \<open>\<^verbatim>\<open>for char in s: input.send_keys(char); time.sleep(random.uniform(0.05, 0.15))\<close>\<close>

fun type_chars :: "env \<Rightarrow> elem \<Rightarrow> string \<Rightarrow> unit prog" where
  "type_chars en el [] = returnE ()"
| "type_chars en el (c # cs) =
     thenE (invoke en (SendKeys el c)) (thenE (sleep 50 150) (type_chars en el cs))"

definition verify_login :: "env \<Rightarrow> bool prog" where
  "verify_login en =
     try_except
       (bindE (driver_ask en (WaitPresent (ByXPath direct_xpath) 10) (elem_of en)) (\<lambda>_. returnE True))
       is_timeout (returnE False)"

text \<open>
  \<^verbatim>\<open>login_instagram\<close>, lines 88 to 126 of its \<^verbatim>\<open>try\<close> block: open the login page, accept
  the cookie banner if there is one, type the user name and the password, click the
  submit button and wait.
\<close>

definition submit_credentials :: "env \<Rightarrow> bot \<Rightarrow> unit prog" where
  "submit_credentials en b =
       thenE (driver_invoke en (Get login_url))
       (thenE (human_delay 3 5)
       (thenE (click_if_present en accept_xpath)
       (bindE (driver_ask en (WaitPresent (ByName ''username'') 10) (elem_of en)) (\<lambda>username_input.
        thenE (invoke en (Clear username_input))
       (thenE (type_chars en username_input (username b))
       (thenE (human_delay 1 2)
       (bindE (driver_ask en (FindElement (ByName ''password'')) (elem_of en)) (\<lambda>password_input.
        thenE (invoke en (Clear password_input))
       (thenE (type_chars en password_input (password b))
       (thenE (human_delay 1 2)
       (bindE (driver_ask en (FindElement (ByXPath submit_xpath)) (elem_of en)) (\<lambda>login_btn.
        thenE (invoke en (Click login_btn))
              (human_delay 5 8)))))))))))))"

text \<open>
  The whole of \<^verbatim>\<open>login_instagram\<close>: after the credentials, the challenge dialogs
  (line 129), then the verification (lines 132 to 140).
\<close>

definition login_instagram :: "env \<Rightarrow> bot \<Rightarrow> bool prog" where
  "login_instagram en b =
     try_except
       (thenE (submit_credentials en b)
       (thenE (handle_login_challenges en)
              (verify_login en)))
       any_exception (returnE False)"

definition navigate_to_dms :: "env \<Rightarrow> bool prog" where
  "navigate_to_dms en =
     try_except
       (bindE (driver_ask en (WaitClickable (ByXPath direct_xpath) 10) (elem_of en)) (\<lambda>dm_link.
        thenE (invoke en (Click dm_link))
       (thenE (human_delay 3 5)
       (try_except
          (bindE (driver_ask en (WaitPresent (ByXPath dm_page_xpath) 10) (elem_of en))
             (\<lambda>_. returnE True))
          is_timeout (returnE False)))))
       any_exception (returnE False)"

text \<open>
  \<^verbatim>\<open>extract_instagram_url\<close>: the result of \<^verbatim>\<open>re.search\<close> for the URL pattern is the
  environment's; \<^verbatim>\<open>hash\<close> of a string likewise (it is salted per process).
\<close>

definition extract_instagram_url :: "env \<Rightarrow> string \<Rightarrow> string option" where
  "extract_instagram_url en txt = search_of en txt"

text \<open>The body of the inner loop of \<^verbatim>\<open>get_new_messages\<close>, after the text has been read.\<close>

definition examine_message :: "env \<Rightarrow> nat \<Rightarrow> message list \<Rightarrow> string \<Rightarrow> message list prog" where
  "examine_message en i messages raw w =
     (let message_text = py_strip raw in
      if contains ''instagram.com'' message_text \<or> contains ''reel'' (py_lower message_text)
      then
        (let message_id = str_of_nat i @ ''_'' @ str_of_int (hash_of en message_text) in
         if HStr message_id \<notin> set (processed_messages w)
         then (Inr (messages @
                 [\<lparr>msg_id = message_id, msg_content = message_text,
                   msg_url = extract_instagram_url en message_text\<rparr>]), w)
         else (Inr messages, w))
      else (Inr messages, w))"

fun scan_messages :: "env \<Rightarrow> nat \<Rightarrow> elem list \<Rightarrow> message list \<Rightarrow> message list prog" where
  "scan_messages en i [] messages = returnE messages"
| "scan_messages en i (msg_elem # rest) messages =
     bindE
       (try_except
          (bindE (ask en (ElemText msg_elem) (text_of en)) (examine_message en i messages))
          any_exception (returnE messages))
       (scan_messages en i rest)"

text \<open>
  The outer loop. Inside its \<^verbatim>\<open>try\<close>, only the calls before the message loop can raise
  (the message loop catches everything and \<^verbatim>\<open>human_delay\<close> cannot fail), so the handler
  sees the list as it was when the iteration began.
\<close>

fun scan_conversations :: "env \<Rightarrow> (nat \<times> elem) list \<Rightarrow> message list \<Rightarrow> message list prog" where
  "scan_conversations en [] messages = returnE messages"
| "scan_conversations en ((i, conversation) # rest) messages =
     bindE
       (try_except
          (thenE (invoke en (Click conversation))
          (thenE (human_delay 2 3)
          (bindE (driver_ask en (FindElements (ByXPath message_xpath)) (elems_of en)) (\<lambda>message_elements.
           bindE (scan_messages en i
                    (drop (length message_elements - 3) message_elements) messages)
             (\<lambda>messages'. thenE (human_delay 1 2) (returnE messages'))))))
          any_exception (returnE messages))
       (scan_conversations en rest)"

definition enumerate :: "'a list \<Rightarrow> (nat \<times> 'a) list" where
  "enumerate xs = zip [0..<length xs] xs"

definition get_new_messages :: "env \<Rightarrow> message list prog" where
  "get_new_messages en =
     try_except
       (bindE (driver_ask en (FindElements (ByXPath conversation_xpath)) (elems_of en))
          (\<lambda>conversations. scan_conversations en (enumerate (take 5 conversations)) []))
       any_exception (returnE [])"

definition add_processed :: "string \<Rightarrow> unit prog" where
  "add_processed i w =
     (Inr (), w\<lparr>processed_messages := set_add (HStr i) (processed_messages w)\<rparr>)"

definition buffer_post :: "bot \<Rightarrow> string \<Rightarrow> call" where
  "buffer_post b url =
     HttpPost ''https://api.bufferapp.com/1/updates/create.json''
       [(''text'', ''Check out this amazing content! '' @ url),
        (''profile_ids[]'', buffer_profile_id b),
        (''shorten'', ''true'')]
       [(''Authorization'', ''Bearer '' @ buffer_token b),
        (''Content-Type'', ''application/x-www-form-urlencoded'')]"

text \<open>\<^verbatim>\<open>if not url\<close> holds for \<^verbatim>\<open>None\<close> and for the empty string.\<close>

definition add_to_buffer_fixed :: "env \<Rightarrow> bot \<Rightarrow> message \<Rightarrow> bool prog" where
  "add_to_buffer_fixed en b m =
     try_except
       (case msg_url m of
          None \<Rightarrow> returnE False
        | Some url \<Rightarrow>
            if url = [] then returnE False
            else bindE (ask en (buffer_post b url) (status_of en)) (\<lambda>status_code.
                   if status_code = 200
                   then thenE (add_processed (msg_id m)) (returnE True)
                   else returnE False))
       any_exception (returnE False)"

section \<open>The persistent bot: \<^verbatim>\<open>PersistentInstagramDMBot\<close>\<close>

definition session_file :: "bot \<Rightarrow> string" where
  "session_file b = ''instagram_session_'' @ username b @ ''.pkl''"

definition cookies_file :: "bot \<Rightarrow> string" where
  "cookies_file b = ''instagram_cookies_'' @ username b @ ''.json''"

text \<open>
  \<^verbatim>\<open>__init__\<close>: a new bot has no driver and an empty set of processed messages.
\<close>

definition new_bot :: "unit prog" where
  "new_bot w = (Inr (), w\<lparr>driver := False, processed_messages := []\<rparr>)"

definition viewports :: "string list" where
  "viewports = [''1366,768'', ''1920,1080'', ''1440,900'', ''1536,864'']"

text \<open>
  The command-line arguments given to Chrome, in the order \<^verbatim>\<open>setup_driver\<close> adds them.
  The experimental options and preferences, which are constants, are not listed.
\<close>

definition chrome_arguments :: "bot \<Rightarrow> bool \<Rightarrow> bool \<Rightarrow> string option \<Rightarrow> string \<Rightarrow> string list" where
  "chrome_arguments b headless use_proxy proxy_address viewport =
     (if headless then [''--headless''] else []) @
     [''--no-sandbox'',
      ''--disable-dev-shm-usage'',
      ''--disable-blink-features=AutomationControlled'',
      ''--disable-web-security'',
      ''--disable-features=VizDisplayCompositor'',
      ''--disable-extensions'',
      ''--disable-plugins'',
      ''--user-data-dir=/tmp/chrome_profile_'' @ username b,
      ''--profile-directory=Default'',
      ''--window-size='' @ viewport,
      ''--user-agent=Mozilla/5.0 (Windows NT 10.0; Win64; x64) AppleWebKit/537.36 (KHTML, like Gecko) Chrome/120.0.0.0 Safari/537.36''] @
     (case proxy_address of
        Some a \<Rightarrow> if use_proxy \<and> a \<noteq> [] then [''--proxy-server='' @ a] else []
      | None \<Rightarrow> [])"

definition choose_viewport :: "env \<Rightarrow> string prog" where
  "choose_viewport en w = (Inr (viewports ! (choice_of en (trace w) mod 4)), w)"

definition set_driver :: "unit prog" where
  "set_driver w = (Inr (), w\<lparr>driver := True\<rparr>)"

definition setup_driver :: "env \<Rightarrow> bot \<Rightarrow> bool \<Rightarrow> bool \<Rightarrow> string option \<Rightarrow> unit prog" where
  "setup_driver en b headless use_proxy proxy_address =
     thenE (invoke en (MakeDirs (''/tmp/chrome_profile_'' @ username b)))
    (bindE (choose_viewport en) (\<lambda>viewport.
     thenE (invoke en InstallChromeDriver)
    (thenE (invoke en (StartChrome (chrome_arguments b headless use_proxy proxy_address viewport)))
    (thenE set_driver
    (thenE (driver_invoke en (ExecuteScript
        ''Object.defineProperty(navigator, 'webdriver', {get: () => undefined})''))
    (thenE (driver_invoke en (ExecuteScript
        ''Object.defineProperty(navigator, 'plugins', {get: () => [1, 2, 3, 4, 5]})''))
           (driver_invoke en (ExecuteScript
        ''Object.defineProperty(navigator, 'languages', {get: () => ['en-US', 'en']})''))))))))"

definition now :: "env \<Rightarrow> string prog" where
  "now en w = (Inr (now_of en (trace w)), w)"

text \<open>\<^verbatim>\<open>list(self.processed_messages)\<close>\<close>

definition processed_list :: "pyval prog" where
  "processed_list w = (Inr (PList (map of_key (processed_messages w))), w)"

definition save_session :: "env \<Rightarrow> bot \<Rightarrow> bool prog" where
  "save_session en b =
     try_except
       (bindE (driver_ask en GetCookies (cookies_of en)) (\<lambda>cookies.
        thenE (dump_file en (cookies_file b) (JsonText cookies))
       (bindE (now en) (\<lambda>last_login.
        bindE (driver_ask en (ExecuteScript ''return navigator.userAgent'') (text_of en)) (\<lambda>user_agent.
        bindE (driver_ask en CurrentUrl (text_of en)) (\<lambda>current_url.
        bindE processed_list (\<lambda>processed.
        thenE (dump_file en (session_file b)
                 (Pickled (PDict
                    [(''last_login'', PStr last_login),
                     (''user_agent'', PStr user_agent),
                     (''current_url'', PStr current_url),
                     (''processed_messages'', processed)])))
              (returnE True))))))))
       any_exception (returnE False)"

text \<open>
  \<^verbatim>\<open>for cookie in cookies: try: driver.add_cookie(cookie)  except Exception: continue\<close>
\<close>

fun add_cookies :: "env \<Rightarrow> pyval list \<Rightarrow> unit prog" where
  "add_cookies en [] = returnE ()"
| "add_cookies en (cookie # rest) =
     thenE (try_except (driver_invoke en (AddCookie cookie)) any_exception (returnE ()))
           (add_cookies en rest)"

definition set_processed :: "hkey list \<Rightarrow> unit prog" where
  "set_processed ks w = (Inr (), w\<lparr>processed_messages := ks\<rparr>)"

definition load_session_info :: "env \<Rightarrow> bot \<Rightarrow> unit prog" where
  "load_session_info en b =
     ifE (\<lambda>w. path_exists w (session_file b))
       (bindE (pickle_load en (session_file b)) (\<lambda>session_data.
        bindE (lift (dict_get session_data ''processed_messages'' (PList []))) (\<lambda>stored.
        bindE (lift (py_set stored)) set_processed)))
       (returnE ())"

definition load_cookies :: "env \<Rightarrow> bot \<Rightarrow> bool prog" where
  "load_cookies en b =
     ifE (\<lambda>w. path_exists w (cookies_file b))
       (thenE (driver_invoke en (Get instagram_url))
       (thenE (human_delay 2 3)
       (bindE (json_load en (cookies_file b)) (\<lambda>cookies.
        bindE (lift (py_iter cookies)) (\<lambda>items.
        thenE (add_cookies en items)
       (thenE (driver_invoke en Refresh)
       (thenE (human_delay 3 5)
              (returnE True))))))))
       (returnE False)"

definition load_session :: "env \<Rightarrow> bot \<Rightarrow> bool prog" where
  "load_session en b =
     try_except (thenE (load_session_info en b) (load_cookies en b))
       any_exception (returnE False)"

definition logged_in_indicators :: "string list" where
  "logged_in_indicators =
     [''//a[contains(@href, '/direct/')]'',
      ''//svg[@aria-label='Direct']'',
      ''//a[contains(@href, 'accounts/edit')]'',
      ''//button[contains(@class, 'follow')]'',
      ''//div[contains(@class, 'logged-in')]'']"

definition login_indicators :: "string list" where
  "login_indicators =
     [''//input[@name='username']'',
      ''//input[@name='password']'',
      ''//button[@type='submit']'']"

text \<open>
  The two \<^verbatim>\<open>for\<close> loops of \<^verbatim>\<open>is_logged_in\<close>. Each gives \<open>Some r\<close> when the loop
  body executed \<^verbatim>\<open>return r\<close> and \<open>None\<close> when the loop ran to its end. A
  \<^verbatim>\<open>WebElement\<close> is always truthy, so \<^verbatim>\<open>if element\<close> holds whenever the search
  returned.
\<close>

fun find_logged_in :: "env \<Rightarrow> string list \<Rightarrow> bool option prog" where
  "find_logged_in en [] = returnE None"
| "find_logged_in en (indicator # rest) =
     bindE
       (try_except
          (bindE (driver_ask en (WaitPresent (ByXPath indicator) 5) (elem_of en))
             (\<lambda>element. returnE (Some True)))
          is_timeout (returnE None))
       (\<lambda>r. case r of Some v \<Rightarrow> returnE (Some v) | None \<Rightarrow> find_logged_in en rest)"

fun find_login_page :: "env \<Rightarrow> string list \<Rightarrow> bool option prog" where
  "find_login_page en [] = returnE None"
| "find_login_page en (indicator # rest) =
     bindE
       (try_except
          (bindE (driver_ask en (FindElement (ByXPath indicator)) (elem_of en))
             (\<lambda>element. returnE (Some False)))
          any_exception (returnE None))
       (\<lambda>r. case r of Some v \<Rightarrow> returnE (Some v) | None \<Rightarrow> find_login_page en rest)"

text \<open>\<^verbatim>\<open>is_logged_in\<close> with the list of logged-in indicators as a parameter.\<close>

definition is_logged_in_with :: "env \<Rightarrow> string list \<Rightarrow> bool prog" where
  "is_logged_in_with en indicators =
     try_except
       (thenE (driver_invoke en (Get instagram_url))
       (thenE (human_delay 3 5)
       (bindE (find_logged_in en indicators) (\<lambda>r.
          case r of
            Some v \<Rightarrow> returnE v
          | None \<Rightarrow>
              bindE (find_login_page en login_indicators) (\<lambda>r'.
                case r' of Some v \<Rightarrow> returnE v | None \<Rightarrow> returnE False)))))
       any_exception (returnE False)"

definition is_logged_in :: "env \<Rightarrow> bool prog" where
  "is_logged_in en = is_logged_in_with en logged_in_indicators"

definition smart_login :: "env \<Rightarrow> bot \<Rightarrow> bool prog" where
  "smart_login en b =
     try_except
       (thenE (setup_driver en b True False None)
       (bindE (load_session en b) (\<lambda>session_loaded.
        bindE (is_logged_in en) (\<lambda>logged_in.
          if logged_in then returnE True
          else bindE (login_instagram en b) (\<lambda>ok.
                 if ok then bindE (save_session en b) (\<lambda>_. returnE True)
                 else returnE False)))))
       any_exception (returnE False)"

text \<open>
  \<^verbatim>\<open>for message in new_messages: if add_to_buffer_fixed(message): processed_count += 1;
  human_delay(3, 6)\<close>
\<close>

fun process_messages :: "env \<Rightarrow> bot \<Rightarrow> message list \<Rightarrow> nat \<Rightarrow> nat prog" where
  "process_messages en b [] processed_count = returnE processed_count"
| "process_messages en b (m # rest) processed_count =
     bindE (add_to_buffer_fixed en b m) (\<lambda>added.
     thenE (human_delay 3 6)
           (process_messages en b rest (if added then processed_count + 1 else processed_count)))"

definition quit_driver :: "env \<Rightarrow> unit prog" where
  "quit_driver en = ifE driver (driver_invoke en Quit) (returnE ())"

definition run_scheduled_check :: "env \<Rightarrow> bot \<Rightarrow> bool prog" where
  "run_scheduled_check en b =
     finallyE
       (try_except
          (bindE (smart_login en b) (\<lambda>authenticated.
             if \<not> authenticated then returnE False
             else bindE (navigate_to_dms en) (\<lambda>in_dms.
               if \<not> in_dms then returnE False
               else bindE (get_new_messages en) (\<lambda>new_messages.
                    bindE (process_messages en b new_messages 0) (\<lambda>processed_count.
                    bindE (save_session en b) (\<lambda>_. returnE True))))))
          any_exception (returnE False))
       (quit_driver en)"

section \<open>The script\<close>

definition setup_environment_variables :: "env \<Rightarrow> (string \<times> string option) list prog" where
  "setup_environment_variables en =
     thenE (invoke en LoadDotenv)
       (returnE
          [(''username'', getenv en ''INSTAGRAM_USERNAME''),
           (''password'', getenv en ''INSTAGRAM_PASSWORD''),
           (''buffer_token'', getenv en ''BUFFER_ACCESS_TOKEN''),
           (''buffer_profile_id'', getenv en ''BUFFER_PROFILE_ID'')])"

text \<open>\<^verbatim>\<open>[key for key, value in config.items() if not value]\<close>\<close>

definition missing_vars :: "(string \<times> string option) list \<Rightarrow> string list" where
  "missing_vars config = map fst (filter (\<lambda>(key, v). v = None \<or> v = Some []) config)"

definition config_value :: "(string \<times> string option) list \<Rightarrow> string \<Rightarrow> string" where
  "config_value config key = (case map_of config key of Some (Some v) \<Rightarrow> v | _ \<Rightarrow> [])"

definition bot_of :: "(string \<times> string option) list \<Rightarrow> bot" where
  "bot_of config =
     \<lparr>username = config_value config ''username'',
      password = config_value config ''password'',
      buffer_token = config_value config ''buffer_token'',
      buffer_profile_id = config_value config ''buffer_profile_id''\<rparr>"

text \<open>
  The \<^verbatim>\<open>__main__\<close> block. \<open>Inr n\<close> is \<^verbatim>\<open>sys.exit(n)\<close>; \<open>Inl e\<close> is an exception that
  nothing caught, which the interpreter reports with a traceback.
  \<^verbatim>\<open>create_setup_files\<close> only tests three paths and logs, and has no counterpart here.
\<close>

definition main :: "env \<Rightarrow> nat prog" where
  "main en =
     bindE (setup_environment_variables en) (\<lambda>config.
       if missing_vars config \<noteq> [] then returnE 1
       else thenE new_bot
         (bindE (test_buffer_connection en (bot_of config)) (\<lambda>connected.
            if \<not> connected then returnE 1
            else bindE (run_scheduled_check en (bot_of config)) (\<lambda>success.
                   if success then returnE 0 else returnE 1))))"

section \<open>Notions used in the statements\<close>

definition new_events :: "world \<Rightarrow> world \<Rightarrow> event list" where
  "new_events w w' = drop (length (trace w)) (trace w')"

definition preserves :: "(world \<Rightarrow> world \<Rightarrow> bool) \<Rightarrow> 'a prog \<Rightarrow> bool" where
  "preserves R m = (\<forall>w. R w (snd (m w)))"

definition appends :: "(call \<Rightarrow> bool) \<Rightarrow> world \<Rightarrow> world \<Rightarrow> bool" where
  "appends P w w' = (\<exists>evs. trace w' = trace w @ evs \<and> list_all (\<lambda>ev. P (fst ev)) evs)"

definition same_files :: "world \<Rightarrow> world \<Rightarrow> bool" where
  "same_files w w' = (files w' = files w)"

definition after_setup :: "env \<Rightarrow> bot \<Rightarrow> world \<Rightarrow> world" where
  "after_setup en b w = snd (setup_driver en b True False None w)"

definition after_load :: "env \<Rightarrow> bot \<Rightarrow> world \<Rightarrow> world" where
  "after_load en b w = snd (load_session en b (after_setup en b w))"

definition after_probe :: "env \<Rightarrow> bot \<Rightarrow> world \<Rightarrow> world" where
  "after_probe en b w = snd (is_logged_in en (after_load en b w))"

definition after_login :: "env \<Rightarrow> bot \<Rightarrow> world \<Rightarrow> world" where
  "after_login en b w = snd (login_instagram en b (after_probe en b w))"

fun credential_entry :: "call \<Rightarrow> bool" where
  "credential_entry (Get url) = (url = login_url)"
| "credential_entry (SendKeys el c) = True"
| "credential_entry c = False"

fun persistence_call :: "call \<Rightarrow> bool" where
  "persistence_call GetCookies = True"
| "persistence_call (OpenWrite p) = True"
| "persistence_call (WriteData p) = True"
| "persistence_call c = False"

definition same_driver :: "world \<Rightarrow> world \<Rightarrow> bool" where
  "same_driver w w' = (driver w' = driver w)"

definition same_processed :: "world \<Rightarrow> world \<Rightarrow> bool" where
  "same_processed w w' = (processed_messages w' = processed_messages w)"

definition publish_succeeds :: "env \<Rightarrow> bot \<Rightarrow> message \<Rightarrow> world \<Rightarrow> bool" where
  "publish_succeeds en b m w =
     (case msg_url m of
        None \<Rightarrow> False
      | Some url \<Rightarrow>
          url \<noteq> [] \<and> fails en (trace w) (buffer_post b url) = None
          \<and> status_of en (trace w) (buffer_post b url) = 200)"


fun injected :: "event list \<Rightarrow> pyval list" where
  "injected [] = []"
| "injected ((AddCookie c, None) # evs) = c # injected evs"
| "injected (ev # evs) = injected evs"








text \<open>
  \<open>follows m w F\<close>: run from \<open>w\<close>, the program \<open>m\<close> makes an initial part of the
  calls \<open>F\<close>, in their order, and all of \<open>F\<close> when it returns normally.
\<close>

definition follows :: "'a prog \<Rightarrow> world \<Rightarrow> call list \<Rightarrow> bool" where
  "follows m w F =
     (\<exists>evs rest. trace (snd (m w)) = trace w @ evs \<and> map fst evs @ rest = F
        \<and> (\<forall>x. fst (m w) = Inr x \<longrightarrow> rest = []))"


subsection \<open>Concrete environments\<close>

definition env_with :: "(event list \<Rightarrow> call \<Rightarrow> exn option) \<Rightarrow> env" where
  "env_with f =
     \<lparr>fails = f, elem_of = (\<lambda>_ _. 0), elems_of = (\<lambda>_ _. []), text_of = (\<lambda>_ _. []),
      cookies_of = (\<lambda>_ _. PList []), status_of = (\<lambda>_ _. 200), choice_of = (\<lambda>_. 0),
      now_of = (\<lambda>_. []), getenv = (\<lambda>_. Some ''x''), hash_of = (\<lambda>_. 0),
      search_of = (\<lambda>_. None)\<rparr>"

definition bot0 :: bot where
  "bot0 = \<lparr>username = ''u'', password = ''p'', buffer_token = ''t'', buffer_profile_id = ''i''\<rparr>"

definition world0 :: world where
  "world0 = \<lparr>trace = [], files = (\<lambda>_. None), driver = False, processed_messages = []\<rparr>"

text \<open>A state in which \<^verbatim>\<open>setup_driver\<close> has stored a driver.\<close>

definition world_ready :: world where
  "world_ready = \<lparr>trace = [], files = (\<lambda>_. None), driver = True, processed_messages = []\<rparr>"

definition env_ok :: env where
  "env_ok = env_with (\<lambda>_ _. None)"

definition env_save_fails :: env where
  "env_save_fails = env_with (\<lambda>h c. case c of
       WaitPresent l t \<Rightarrow> if t = 5 then Some TimeoutException else None
     | WaitClickable l t \<Rightarrow> Some TimeoutException
     | GetCookies \<Rightarrow> Some WebDriverException
     | _ \<Rightarrow> None)"

definition env_locked_out :: env where
  "env_locked_out = env_with (\<lambda>h c. case c of
       WaitPresent l t \<Rightarrow> Some TimeoutException
     | WaitClickable l t \<Rightarrow> Some TimeoutException
     | FindElement l \<Rightarrow> Some NoSuchElementException
     | _ \<Rightarrow> None)"


definition message0 :: message where
  "message0 = \<lparr>msg_id = ''0_1'', msg_content = ''reel'',
                msg_url = Some ''https://www.instagram.com/reel/x''\<rparr>"

definition cookie_bad :: pyval where
  "cookie_bad = PDict [(''name'', PStr ''broken'')]"

definition cookie_good :: "string \<Rightarrow> pyval" where
  "cookie_good n = PDict [(''name'', PStr n), (''value'', PStr ''v''), (''secure'', PBool True)]"

definition env_rejects_bad :: env where
  "env_rejects_bad =
     env_with (\<lambda>h c. if c = AddCookie cookie_bad then Some WebDriverException else None)"

definition message_set :: "hkey list" where
  "message_set = [HStr ''0_17'', HStr ''2_-5'']"

definition world_fresh :: "world \<Rightarrow> world" where
  "world_fresh w = w\<lparr>trace := [], driver := True, processed_messages := []\<rparr>"


definition env_quit_fails :: env where
  "env_quit_fails = env_with (\<lambda>h c. if c = Quit then Some WebDriverException else None)"

section \<open>Basic facts\<close>

lemmas prog_defs = returnE_def raiseE_def bindE_def thenE_def try_except_def finallyE_def
  any_exception_def is_timeout_def log_event_def ask_def invoke_def sleep_def human_delay_def
  ifE_def lift_def driver_ask_def driver_invoke_def

subsection \<open>Programs that never raise\<close>

lemma try_any_returns:
  "(\<And>w'. \<exists>x. fst (h w') = Inr x) \<Longrightarrow> \<exists>x. fst (try_except m any_exception h w) = Inr x"
  by (cases "m w"; cases "fst (m w)") (auto simp: try_except_def any_exception_def)

lemma try_any_return_value:
  "\<exists>x. fst (try_except m any_exception (returnE d) w) = Inr x"
  by (rule try_any_returns) (simp add: returnE_def)

lemma load_session_returns: "\<exists>x. fst (load_session en b w) = Inr x"
  unfolding load_session_def by (rule try_any_return_value)

lemma is_logged_in_with_returns: "\<exists>x. fst (is_logged_in_with en xs w) = Inr x"
  unfolding is_logged_in_with_def by (rule try_any_return_value)

lemma login_instagram_returns: "\<exists>x. fst (login_instagram en b w) = Inr x"
  unfolding login_instagram_def by (rule try_any_return_value)

lemma save_session_returns: "\<exists>x. fst (save_session en b w) = Inr x"
  unfolding save_session_def by (rule try_any_return_value)

lemma smart_login_returns: "\<exists>x. fst (smart_login en b w) = Inr x"
  unfolding smart_login_def by (rule try_any_return_value)

subsection \<open>Relations every step respects\<close>

lemma preserves_returnE: "reflp R \<Longrightarrow> preserves R (returnE x)"
  by (simp add: preserves_def returnE_def reflp_def)

lemma preserves_raiseE: "reflp R \<Longrightarrow> preserves R (raiseE x)"
  by (simp add: preserves_def raiseE_def reflp_def)

lemma preserves_lift: "reflp R \<Longrightarrow> preserves R (lift x)"
  by (simp add: preserves_def lift_def reflp_def)

lemma preserves_bindE:
  assumes "transp R" and "preserves R m" and "\<And>x. preserves R (f x)"
  shows "preserves R (bindE m f)"
  unfolding preserves_def
proof
  fix w
  obtain r w' where mw: "m w = (r, w')" by (cases "m w")
  have 1: "R w w'" using assms(2) mw by (auto simp: preserves_def dest: spec[of _ w])
  show "R w (snd (bindE m f w))"
  proof (cases r)
    case (Inl e)
    then show ?thesis using mw 1 by (simp add: bindE_def)
  next
    case (Inr x)
    have "R w' (snd (f x w'))" using assms(3)[of x] by (simp add: preserves_def)
    with 1 have "R w (snd (f x w'))" using assms(1) by (blast dest: transpD)
    then show ?thesis using mw Inr by (simp add: bindE_def)
  qed
qed

lemma preserves_thenE:
  "transp R \<Longrightarrow> preserves R m \<Longrightarrow> preserves R n \<Longrightarrow> preserves R (thenE m n)"
  unfolding thenE_def by (rule preserves_bindE)

lemma preserves_try_except:
  assumes "transp R" and "preserves R m" and "preserves R h"
  shows "preserves R (try_except m c h)"
  unfolding preserves_def
proof
  fix w
  obtain r w' where mw: "m w = (r, w')" by (cases "m w")
  have 1: "R w w'" using assms(2) mw by (auto simp: preserves_def dest: spec[of _ w])
  have 2: "R w' (snd (h w'))" using assms(3) by (simp add: preserves_def)
  from 1 2 have 3: "R w (snd (h w'))" using assms(1) by (blast dest: transpD)
  show "R w (snd (try_except m c h w))"
    using mw 1 3 by (cases r) (simp_all add: try_except_def)
qed

lemma preserves_finallyE:
  assumes "transp R" and "preserves R m" and "preserves R f"
  shows "preserves R (finallyE m f)"
  unfolding preserves_def
proof
  fix w
  obtain r w' where mw: "m w = (r, w')" by (cases "m w")
  obtain r' w'' where fw: "f w' = (r', w'')" by (cases "f w'")
  have 1: "R w w'" using assms(2) mw by (auto simp: preserves_def dest: spec[of _ w])
  have 2: "R w' w''" using assms(3) fw by (auto simp: preserves_def dest: spec[of _ w'])
  from 1 2 have 3: "R w w''" using assms(1) by (blast dest: transpD)
  show "R w (snd (finallyE m f w))"
    using mw fw 3 by (cases r') (simp_all add: finallyE_def)
qed

lemma preserves_ifE:
  "preserves R m \<Longrightarrow> preserves R n \<Longrightarrow> preserves R (ifE c m n)"
  by (simp add: preserves_def ifE_def)

lemma preserves_if:
  "preserves R m \<Longrightarrow> preserves R n \<Longrightarrow> preserves R (if c then m else n)"
  by simp

lemma appends_reflp: "reflp (appends P)"
  by (simp add: reflp_def appends_def)

lemma appends_transp: "transp (appends P)"
  unfolding transp_def appends_def
  by (metis append.assoc list_all_append)

lemma same_files_reflp: "reflp same_files"
  by (simp add: reflp_def same_files_def)

lemma same_files_transp: "transp same_files"
  by (simp add: transp_def same_files_def)

lemma appends_ask: "P c \<Longrightarrow> preserves (appends P) (ask en c v)"
  by (simp add: preserves_def appends_def ask_def log_event_def split: option.splits)

lemma appends_invoke: "P c \<Longrightarrow> preserves (appends P) (invoke en c)"
  unfolding invoke_def by (rule appends_ask)

lemma appends_driver_ask: "P c \<Longrightarrow> preserves (appends P) (driver_ask en c v)"
  by (simp add: preserves_def appends_def driver_ask_def ask_def log_event_def
      split: option.splits)

lemma appends_driver_invoke: "P c \<Longrightarrow> preserves (appends P) (driver_invoke en c)"
  unfolding driver_invoke_def by (rule appends_driver_ask)

lemma appends_sleep: "P (Sleep lo hi) \<Longrightarrow> preserves (appends P) (sleep lo hi)"
  by (simp add: preserves_def appends_def sleep_def log_event_def)

lemma appends_human_delay:
  "P (Sleep (1000 * lo) (1000 * hi)) \<Longrightarrow> preserves (appends P) (human_delay lo hi)"
  unfolding human_delay_def by (rule appends_sleep)

lemma appends_load_file: "P (ReadFile p) \<Longrightarrow> preserves (appends P) (load_file en p d e)"
  by (simp add: preserves_def appends_def load_file_def log_event_def split: option.splits)

lemma same_files_ask: "preserves same_files (ask en c v)"
  by (simp add: preserves_def same_files_def ask_def log_event_def split: option.splits)

lemma same_files_invoke: "preserves same_files (invoke en c)"
  unfolding invoke_def by (rule same_files_ask)

lemma same_files_driver_ask: "preserves same_files (driver_ask en c v)"
  by (simp add: preserves_def same_files_def driver_ask_def ask_def log_event_def
      split: option.splits)

lemma same_files_driver_invoke: "preserves same_files (driver_invoke en c)"
  unfolding driver_invoke_def by (rule same_files_driver_ask)

lemma same_files_human_delay: "preserves same_files (human_delay lo hi)"
  by (simp add: preserves_def same_files_def human_delay_def sleep_def log_event_def)

lemma same_files_sleep: "preserves same_files (sleep lo hi)"
  by (simp add: preserves_def same_files_def sleep_def log_event_def)

lemma same_files_load_file: "preserves same_files (load_file en p d e)"
  by (simp add: preserves_def same_files_def load_file_def log_event_def split: option.splits)

lemmas appends_intros =
  preserves_returnE[OF appends_reflp] preserves_raiseE[OF appends_reflp]
  preserves_lift[OF appends_reflp] preserves_bindE[OF appends_transp]
  preserves_thenE[OF appends_transp] preserves_try_except[OF appends_transp]
  preserves_finallyE[OF appends_transp] preserves_ifE preserves_if
  appends_ask appends_invoke appends_driver_ask appends_driver_invoke appends_sleep
  appends_human_delay appends_load_file

lemmas same_files_intros =
  preserves_returnE[OF same_files_reflp] preserves_raiseE[OF same_files_reflp]
  preserves_lift[OF same_files_reflp] preserves_bindE[OF same_files_transp]
  preserves_thenE[OF same_files_transp] preserves_try_except[OF same_files_transp]
  preserves_finallyE[OF same_files_transp] preserves_ifE preserves_if
  same_files_ask same_files_invoke same_files_driver_ask same_files_driver_invoke
  same_files_sleep same_files_human_delay same_files_load_file

lemma appends_state_only:
  "(\<And>w. trace (snd (m w)) = trace w) \<Longrightarrow> preserves (appends P) m"
  by (simp add: preserves_def appends_def)

lemma same_files_state_only:
  "(\<And>w. files (snd (m w)) = files w) \<Longrightarrow> preserves same_files m"
  by (simp add: preserves_def same_files_def)

lemma appends_setup_driver:
  assumes "\<And>p. P (MakeDirs p)" "P InstallChromeDriver" "\<And>a. P (StartChrome a)"
    "\<And>s. P (ExecuteScript s)"
  shows "preserves (appends P) (setup_driver en b h u a)"
  unfolding setup_driver_def
  by (intro appends_intros assms appends_state_only)
     (simp_all add: choose_viewport_def set_driver_def)

lemma same_files_setup_driver: "preserves same_files (setup_driver en b h u a)"
  unfolding setup_driver_def
  by (intro same_files_intros same_files_state_only)
     (simp_all add: choose_viewport_def set_driver_def)

lemmas run_defs = smart_login_def setup_driver_def load_session_def load_session_info_def
   load_cookies_def is_logged_in_def is_logged_in_with_def login_instagram_def save_session_def
   submit_credentials_def choose_viewport_def set_driver_def
   path_exists_def session_file_def cookies_file_def logged_in_indicators_def login_indicators_def
   click_if_present_def handle_login_challenges_def verify_login_def
   after_setup_def after_load_def after_probe_def after_login_def
   env_with_def bot0_def world0_def

lemma smart_login_unfold:
  assumes "fst (setup_driver en b True False None w) = Inr ()"
  shows "smart_login en b w =
     (case fst (is_logged_in en (after_load en b w)) of
        Inr True \<Rightarrow> (Inr True, after_probe en b w)
      | Inr False \<Rightarrow>
          (case fst (login_instagram en b (after_probe en b w)) of
             Inr True \<Rightarrow> (Inr True, snd (save_session en b (after_login en b w)))
           | Inr False \<Rightarrow> (Inr False, after_login en b w)
           | Inl e \<Rightarrow> (Inr False, after_login en b w))
      | Inl e \<Rightarrow> (Inr False, after_probe en b w))"
proof -
  obtain x where 1: "fst (load_session en b (after_setup en b w)) = Inr x"
    using load_session_returns by blast
  obtain y where 2: "fst (save_session en b (after_login en b w)) = Inr y"
    using save_session_returns by blast
  show ?thesis
    using assms 1 2
    by (auto simp: smart_login_def after_setup_def after_load_def after_probe_def
        after_login_def bindE_def thenE_def try_except_def any_exception_def returnE_def
        split: prod.splits sum.splits bool.splits)
qed

subsection \<open>What each operation may call\<close>

lemma appends_new_events:
  "appends P w w' \<Longrightarrow> list_all (\<lambda>ev. P (fst ev)) (new_events w w')"
  by (auto simp: appends_def new_events_def)

lemma appends_chain: "appends P a b \<Longrightarrow> appends P b c \<Longrightarrow> appends P a c"
  using appends_transp[of P] by (blast dest: transpD)

lemma preservesD: "preserves R m \<Longrightarrow> R w (snd (m w))"
  by (simp add: preserves_def)

lemma appends_add_cookies:
  "(\<And>c. P (AddCookie c)) \<Longrightarrow> preserves (appends P) (add_cookies en cs)"
  by (induction cs) (auto intro!: appends_intros)

lemma same_files_add_cookies: "preserves same_files (add_cookies en cs)"
  by (induction cs) (auto intro!: same_files_intros)

lemma appends_load_session:
  assumes "\<And>p. P (ReadFile p)" "P (Get instagram_url)" "\<And>lo hi. P (Sleep lo hi)"
    "\<And>c. P (AddCookie c)" "P Refresh"
  shows "preserves (appends P) (load_session en b)"
  unfolding load_session_def load_session_info_def load_cookies_def pickle_load_def json_load_def
  by (intro appends_intros assms appends_state_only appends_add_cookies)
     (simp_all add: set_processed_def)

lemma same_files_load_session: "preserves same_files (load_session en b)"
  unfolding load_session_def load_session_info_def load_cookies_def pickle_load_def json_load_def
  by (intro same_files_intros same_files_state_only same_files_add_cookies)
     (simp_all add: set_processed_def)

lemma appends_find_logged_in:
  "(\<And>x. P (WaitPresent (ByXPath x) 5)) \<Longrightarrow> preserves (appends P) (find_logged_in en xs)"
  by (induction xs) (auto intro!: appends_intros split: option.splits)

lemma appends_find_login_page:
  "(\<And>x. P (FindElement (ByXPath x))) \<Longrightarrow> preserves (appends P) (find_login_page en xs)"
  by (induction xs) (auto intro!: appends_intros split: option.splits)

lemma same_files_find_logged_in: "preserves same_files (find_logged_in en xs)"
  by (induction xs) (auto intro!: same_files_intros split: option.splits)

lemma same_files_find_login_page: "preserves same_files (find_login_page en xs)"
  by (induction xs) (auto intro!: same_files_intros split: option.splits)

lemma preserves_case_option:
  "preserves R m \<Longrightarrow> (\<And>v. preserves R (f v)) \<Longrightarrow>
   preserves R (case r of None \<Rightarrow> m | Some v \<Rightarrow> f v)"
  by (cases r) simp_all

lemma appends_is_logged_in_with:
  assumes "P (Get instagram_url)" "\<And>lo hi. P (Sleep lo hi)"
    "\<And>x. P (WaitPresent (ByXPath x) 5)" "\<And>x. P (FindElement (ByXPath x))"
  shows "preserves (appends P) (is_logged_in_with en xs)"
  unfolding is_logged_in_with_def
  by (intro appends_intros preserves_case_option assms appends_find_logged_in
      appends_find_login_page)

lemma same_files_is_logged_in_with: "preserves same_files (is_logged_in_with en xs)"
  unfolding is_logged_in_with_def
  by (intro same_files_intros preserves_case_option same_files_find_logged_in
      same_files_find_login_page)

lemma appends_type_chars:
  "(\<And>c. P (SendKeys el c)) \<Longrightarrow> P (Sleep 50 150) \<Longrightarrow> preserves (appends P) (type_chars en el s)"
  by (induction s) (auto intro!: appends_intros)

lemma same_files_type_chars: "preserves same_files (type_chars en el s)"
  by (induction s) (auto intro!: same_files_intros)

lemma appends_click_if_present:
  assumes "P (WaitClickable (ByXPath x) 5)" "\<And>el. P (Click el)" "P (Sleep 2000 3000)"
  shows "preserves (appends P) (click_if_present en x)"
  unfolding click_if_present_def
  by (intro appends_intros assms) (simp add: assms)

lemma same_files_click_if_present: "preserves same_files (click_if_present en x)"
  unfolding click_if_present_def by (intro same_files_intros)

lemma appends_handle_login_challenges:
  assumes "\<And>x. P (WaitClickable (ByXPath x) 5)" "\<And>el. P (Click el)" "P (Sleep 2000 3000)"
  shows "preserves (appends P) (handle_login_challenges en)"
  unfolding handle_login_challenges_def
  by (intro appends_intros appends_click_if_present assms)

lemma same_files_handle_login_challenges: "preserves same_files (handle_login_challenges en)"
  unfolding handle_login_challenges_def
  by (intro same_files_intros same_files_click_if_present)

lemma appends_submit_credentials:
  assumes "P (Get login_url)" "\<And>lo hi. P (Sleep lo hi)" "\<And>x. P (WaitClickable (ByXPath x) 5)"
    "\<And>el. P (Click el)" "P (WaitPresent (ByName ''username'') 10)" "\<And>el. P (Clear el)"
    "\<And>el c. P (SendKeys el c)" "\<And>l. P (FindElement l)"
  shows "preserves (appends P) (submit_credentials en b)"
  unfolding submit_credentials_def
  by (intro appends_intros appends_click_if_present appends_type_chars assms)

lemma same_files_submit_credentials: "preserves same_files (submit_credentials en b)"
  unfolding submit_credentials_def
  by (intro same_files_intros same_files_click_if_present same_files_type_chars)

lemma appends_login_instagram:
  assumes "P (Get login_url)" "\<And>lo hi. P (Sleep lo hi)" "\<And>x. P (WaitClickable (ByXPath x) 5)"
    "\<And>el. P (Click el)" "\<And>l. P (WaitPresent l 10)" "\<And>el. P (Clear el)"
    "\<And>el c. P (SendKeys el c)" "\<And>l. P (FindElement l)"
  shows "preserves (appends P) (login_instagram en b)"
  unfolding login_instagram_def verify_login_def
  by (intro appends_intros appends_submit_credentials appends_handle_login_challenges assms)

lemma same_files_login_instagram: "preserves same_files (login_instagram en b)"
  unfolding login_instagram_def verify_login_def
  by (intro same_files_intros same_files_submit_credentials same_files_handle_login_challenges)

lemma instagram_url_not_login_url: "instagram_url \<noteq> login_url"
  by (simp add: instagram_url_def login_url_def)

lemma login_instagram_first_event:
  assumes "driver w"
  shows "\<exists>r evs. trace (snd (login_instagram en b w)) = trace w @ (Get login_url, r) # evs"
proof -
  let ?r = "fails en (trace w) (Get login_url)"
  let ?w1 = "log_event (Get login_url) ?r w"
  have first: "snd (driver_invoke en (Get login_url) w) = ?w1"
    using assms by (simp add: driver_invoke_def driver_ask_def ask_def split: option.splits)
  have "appends (\<lambda>_. True) ?w1 (snd (login_instagram en b w))"
  proof (cases ?r)
    case None
    define rest where "rest = thenE (human_delay 3 5) (thenE (click_if_present en accept_xpath)
       (bindE (driver_ask en (WaitPresent (ByName ''username'') 10) (elem_of en)) (\<lambda>username_input.
        thenE (invoke en (Clear username_input))
       (thenE (type_chars en username_input (username b))
       (thenE (human_delay 1 2)
       (bindE (driver_ask en (FindElement (ByName ''password'')) (elem_of en)) (\<lambda>password_input.
        thenE (invoke en (Clear password_input))
       (thenE (type_chars en password_input (password b))
       (thenE (human_delay 1 2)
       (bindE (driver_ask en (FindElement (ByXPath submit_xpath)) (elem_of en)) (\<lambda>login_btn.
        thenE (invoke en (Click login_btn))
              (human_delay 5 8))))))))))))"
    define tail where "tail = try_except (thenE rest (thenE (handle_login_challenges en)
              (verify_login en))) any_exception (returnE False)"
    have "preserves (appends (\<lambda>_. True)) tail"
      unfolding tail_def rest_def verify_login_def
      by (intro appends_intros appends_click_if_present appends_type_chars
          appends_handle_login_challenges) simp_all
    moreover have "snd (login_instagram en b w) = snd (tail ?w1)"
      using None assms
      by (simp add: login_instagram_def submit_credentials_def tail_def rest_def
          thenE_def bindE_def try_except_def driver_invoke_def driver_ask_def ask_def
          split: prod.splits sum.splits)
    ultimately show ?thesis by (simp add: preserves_def)
  next
    case (Some e)
    then have "snd (login_instagram en b w) = ?w1"
      using assms
      by (simp add: login_instagram_def submit_credentials_def thenE_def bindE_def
          try_except_def driver_invoke_def driver_ask_def ask_def any_exception_def
          returnE_def)
    then show ?thesis by (simp add: appends_def)
  qed
  then show ?thesis by (auto simp: appends_def log_event_def)
qed

subsection \<open>Sets of processed messages\<close>

lemma set_set_add: "set (set_add k ks) = insert k (set ks)"
  by (auto simp: set_add_def)

lemma same_processed_reflp: "reflp same_processed"
  by (simp add: reflp_def same_processed_def)

lemma same_processed_transp: "transp same_processed"
  by (simp add: transp_def same_processed_def)

lemma same_processed_ask: "preserves same_processed (ask en c v)"
  by (simp add: preserves_def same_processed_def ask_def log_event_def split: option.splits)

lemma same_processed_invoke: "preserves same_processed (invoke en c)"
  unfolding invoke_def by (rule same_processed_ask)

lemma same_processed_driver_ask: "preserves same_processed (driver_ask en c v)"
  by (simp add: preserves_def same_processed_def driver_ask_def ask_def log_event_def
      split: option.splits)

lemma same_processed_driver_invoke: "preserves same_processed (driver_invoke en c)"
  unfolding driver_invoke_def by (rule same_processed_driver_ask)

lemma same_processed_human_delay: "preserves same_processed (human_delay lo hi)"
  by (simp add: preserves_def same_processed_def human_delay_def sleep_def log_event_def)

lemma same_processed_load_file: "preserves same_processed (load_file en p d e)"
  by (simp add: preserves_def same_processed_def load_file_def log_event_def
      split: option.splits)

lemmas same_processed_intros =
  preserves_returnE[OF same_processed_reflp] preserves_raiseE[OF same_processed_reflp]
  preserves_lift[OF same_processed_reflp] preserves_bindE[OF same_processed_transp]
  preserves_thenE[OF same_processed_transp] preserves_try_except[OF same_processed_transp]
  preserves_ifE preserves_if
  same_processed_ask same_processed_invoke same_processed_driver_ask
  same_processed_driver_invoke same_processed_human_delay same_processed_load_file

lemma same_processed_add_cookies: "preserves same_processed (add_cookies en cs)"
  by (induction cs) (auto intro!: same_processed_intros)

lemma same_processed_load_cookies: "preserves same_processed (load_cookies en b)"
  unfolding load_cookies_def json_load_def
  by (intro same_processed_intros same_processed_add_cookies)


lemma load_session_processed:
  "processed_messages (snd (load_session en b w)) =
   processed_messages (snd (load_session_info en b w))"
proof -
  obtain r w1 where 1: "load_session_info en b w = (r, w1)"
    by (cases "load_session_info en b w")
  have 2: "processed_messages (snd (load_cookies en b w1)) = processed_messages w1"
    using same_processed_load_cookies[of en b] by (simp add: preserves_def same_processed_def)
  show ?thesis
    using 1 2
    by (cases r; cases "load_cookies en b w1"; cases "fst (load_cookies en b w1)")
       (auto simp: load_session_def thenE_def bindE_def try_except_def any_exception_def
        returnE_def)
qed

subsection \<open>The driver stays attached\<close>

lemma same_driver_reflp: "reflp same_driver"
  by (simp add: reflp_def same_driver_def)

lemma same_driver_transp: "transp same_driver"
  by (simp add: transp_def same_driver_def)

lemma same_driver_ask: "preserves same_driver (ask en c v)"
  by (simp add: preserves_def same_driver_def ask_def log_event_def split: option.splits)

lemma same_driver_invoke: "preserves same_driver (invoke en c)"
  unfolding invoke_def by (rule same_driver_ask)

lemma same_driver_driver_ask: "preserves same_driver (driver_ask en c v)"
  by (simp add: preserves_def same_driver_def driver_ask_def ask_def log_event_def
      split: option.splits)

lemma same_driver_driver_invoke: "preserves same_driver (driver_invoke en c)"
  unfolding driver_invoke_def by (rule same_driver_driver_ask)

lemma same_driver_sleep: "preserves same_driver (sleep lo hi)"
  by (simp add: preserves_def same_driver_def sleep_def log_event_def)

lemma same_driver_human_delay: "preserves same_driver (human_delay lo hi)"
  unfolding human_delay_def by (rule same_driver_sleep)

lemma same_driver_load_file: "preserves same_driver (load_file en p d e)"
  by (simp add: preserves_def same_driver_def load_file_def log_event_def split: option.splits)

lemmas same_driver_intros =
  preserves_returnE[OF same_driver_reflp] preserves_raiseE[OF same_driver_reflp]
  preserves_lift[OF same_driver_reflp] preserves_bindE[OF same_driver_transp]
  preserves_thenE[OF same_driver_transp] preserves_try_except[OF same_driver_transp]
  preserves_ifE preserves_if
  same_driver_ask same_driver_invoke same_driver_driver_ask same_driver_driver_invoke
  same_driver_sleep same_driver_human_delay same_driver_load_file

lemma same_driver_state_only:
  "(\<And>w. driver (snd (m w)) = driver w) \<Longrightarrow> preserves same_driver m"
  by (simp add: preserves_def same_driver_def)

lemma same_driver_add_cookies: "preserves same_driver (add_cookies en cs)"
  by (induction cs) (auto intro!: same_driver_intros)





lemma same_driver_find_logged_in: "preserves same_driver (find_logged_in en xs)"
  by (induction xs) (auto intro!: same_driver_intros split: option.splits)

lemma same_driver_load_session: "preserves same_driver (load_session en b)"
  unfolding load_session_def load_session_info_def load_cookies_def pickle_load_def
    json_load_def
  by (intro same_driver_intros same_driver_state_only same_driver_add_cookies)
     (simp_all add: set_processed_def)

lemma same_driverD: "preserves same_driver m \<Longrightarrow> driver (snd (m w)) = driver w"
  by (simp add: preserves_def same_driver_def)

subsection \<open>Saving the session\<close>

lemma to_key_of_key: "to_key (of_key k) = Some k"
  by (cases k) simp_all

lemma keys_of_of_key: "keys_of (map of_key ks) = Some ks"
  by (induction ks) (simp_all add: to_key_of_key)

lemma py_set_stored: "py_set (PList (map of_key ks)) = Inr (remdups ks)"
  by (simp add: py_set_def keys_of_of_key)

lemma dump_file_success:
  assumes "dump_file en p c w = (Inr x, w')"
  shows "files w' = (files w)(p \<mapsto> c) \<and> processed_messages w' = processed_messages w"
  using assms
  by (auto simp: dump_file_def open_write_def write_data_def thenE_def bindE_def log_event_def
      split: option.splits)

lemma save_session_success:
  assumes "fst (save_session en b w) = Inr True"
  shows "\<exists>t u c. files (snd (save_session en b w)) (session_file b) =
           Some (Pickled (PDict
                    [(''last_login'', PStr t),
                     (''user_agent'', PStr u),
                     (''current_url'', PStr c),
                     (''processed_messages'', PList (map of_key (processed_messages w)))]))"
proof -
  define body where "body = bindE (driver_ask en GetCookies (cookies_of en)) (\<lambda>cookies.
        thenE (dump_file en (cookies_file b) (JsonText cookies))
       (bindE (now en) (\<lambda>last_login.
        bindE (driver_ask en (ExecuteScript ''return navigator.userAgent'') (text_of en)) (\<lambda>user_agent.
        bindE (driver_ask en CurrentUrl (text_of en)) (\<lambda>current_url.
        bindE processed_list (\<lambda>processed.
        thenE (dump_file en (session_file b)
                 (Pickled (PDict
                    [(''last_login'', PStr last_login),
                     (''user_agent'', PStr user_agent),
                     (''current_url'', PStr current_url),
                     (''processed_messages'', processed)])))
              (returnE True)))))))"
  have ss: "save_session en b = try_except body any_exception (returnE False)"
    by (simp add: save_session_def body_def)
  obtain r w' where bw: "body w = (r, w')" by (cases "body w")
  have r: "r = Inr True"
    using assms bw by (cases r) (auto simp: ss try_except_def any_exception_def returnE_def)
  have w': "snd (save_session en b w) = w'"
    using bw r by (simp add: ss try_except_def)
  from bw r obtain cookies w1 where 1: "driver_ask en GetCookies (cookies_of en) w = (Inr cookies, w1)"
    and 2: "thenE (dump_file en (cookies_file b) (JsonText cookies))
       (bindE (now en) (\<lambda>last_login.
        bindE (driver_ask en (ExecuteScript ''return navigator.userAgent'') (text_of en)) (\<lambda>user_agent.
        bindE (driver_ask en CurrentUrl (text_of en)) (\<lambda>current_url.
        bindE processed_list (\<lambda>processed.
        thenE (dump_file en (session_file b)
                 (Pickled (PDict
                    [(''last_login'', PStr last_login),
                     (''user_agent'', PStr user_agent),
                     (''current_url'', PStr current_url),
                     (''processed_messages'', processed)])))
              (returnE True)))))) w1 = (Inr True, w')"
    unfolding body_def bindE_def by (auto split: prod.splits sum.splits)
  have p1: "processed_messages w1 = processed_messages w"
    using 1 by (auto simp: driver_ask_def ask_def log_event_def split: option.splits if_splits)
  from 2 obtain w2 where 3: "dump_file en (cookies_file b) (JsonText cookies) w1 = (Inr (), w2)"
    and 4: "bindE (now en) (\<lambda>last_login.
        bindE (driver_ask en (ExecuteScript ''return navigator.userAgent'') (text_of en)) (\<lambda>user_agent.
        bindE (driver_ask en CurrentUrl (text_of en)) (\<lambda>current_url.
        bindE processed_list (\<lambda>processed.
        thenE (dump_file en (session_file b)
                 (Pickled (PDict
                    [(''last_login'', PStr last_login),
                     (''user_agent'', PStr user_agent),
                     (''current_url'', PStr current_url),
                     (''processed_messages'', processed)])))
              (returnE True))))) w2 = (Inr True, w')"
    unfolding thenE_def bindE_def by (auto split: prod.splits sum.splits)
  have p2: "processed_messages w2 = processed_messages w"
    using dump_file_success[OF 3] p1 by simp
  from 4 obtain u w3 c w4 where
    5: "driver_ask en (ExecuteScript ''return navigator.userAgent'') (text_of en) w2 = (Inr u, w3)"
    and 6: "driver_ask en CurrentUrl (text_of en) w3 = (Inr c, w4)"
    and 7: "dump_file en (session_file b)
                 (Pickled (PDict
                    [(''last_login'', PStr (now_of en (trace w2))),
                     (''user_agent'', PStr u),
                     (''current_url'', PStr c),
                     (''processed_messages'', PList (map of_key (processed_messages w4)))])) w4
            = (Inr (), w')"
    unfolding thenE_def bindE_def now_def processed_list_def returnE_def
    by (auto split: prod.splits sum.splits)
  have p4: "processed_messages w4 = processed_messages w"
    using 5 6 p2
    by (auto simp: driver_ask_def ask_def log_event_def split: option.splits if_splits)
  show ?thesis
    using dump_file_success[OF 7] p4 w' by auto
qed

subsection \<open>Injecting cookies\<close>

lemma add_cookies_step:
  "driver w \<Longrightarrow> add_cookies en (c # cs) w =
   add_cookies en cs (log_event (AddCookie c) (fails en (trace w) (AddCookie c)) w)"
  by (simp add: prog_defs split: option.splits)

lemma injected_first:
  "injected ((AddCookie c, r) # evs) = (if r = None then c # injected evs else injected evs)"
  by (cases r) simp_all

lemma add_cookies_events:
  "driver w \<Longrightarrow> \<exists>evs. trace (snd (add_cookies en cs w)) = trace w @ evs
     \<and> map fst evs = map AddCookie cs
     \<and> fst (add_cookies en cs w) = Inr ()
     \<and> ((\<forall>h c. (fails en h (AddCookie c) = None) = well_formed c)
          \<longrightarrow> injected evs = filter well_formed cs)"
proof (induction cs arbitrary: w)
  case Nil
  then show ?case by (simp add: returnE_def)
next
  case (Cons c cs)
  let ?r = "fails en (trace w) (AddCookie c)"
  let ?w1 = "log_event (AddCookie c) ?r w"
  obtain evs where evs: "trace (snd (add_cookies en cs ?w1)) = trace ?w1 @ evs"
    "map fst evs = map AddCookie cs" "fst (add_cookies en cs ?w1) = Inr ()"
    "(\<forall>h c. (fails en h (AddCookie c) = None) = well_formed c)
       \<longrightarrow> injected evs = filter well_formed cs"
    using Cons.IH[of ?w1] Cons.prems by (auto simp: log_event_def)
  note step = add_cookies_step[OF Cons.prems, of en c cs]
  have "trace (snd (add_cookies en (c # cs) w)) = trace w @ (AddCookie c, ?r) # evs"
    using evs(1) by (simp add: step log_event_def del: add_cookies.simps)
  moreover have "map fst ((AddCookie c, ?r) # evs) = map AddCookie (c # cs)"
    using evs(2) by simp
  moreover have "fst (add_cookies en (c # cs) w) = Inr ()"
    using evs(3) by (simp add: step del: add_cookies.simps)
  moreover have "(\<forall>h c. (fails en h (AddCookie c) = None) = well_formed c)
       \<longrightarrow> injected ((AddCookie c, ?r) # evs) = filter well_formed (c # cs)"
    using evs(4) by (auto simp: injected_first)
  ultimately show ?case by blast
qed

lemma invoke_ok:
  "fails en (trace w) c = None \<Longrightarrow> invoke en c w = (Inr (), log_event c None w)"
  by (simp add: invoke_def ask_def)

lemma driver_invoke_ok:
  "driver w \<Longrightarrow> fails en (trace w) c = None \<Longrightarrow>
   driver_invoke en c w = (Inr (), log_event c None w)"
  by (simp add: driver_invoke_def driver_ask_def ask_def)

lemma human_delay_run:
  "human_delay lo hi w = (Inr (), log_event (Sleep (1000 * lo) (1000 * hi)) None w)"
  by (simp add: human_delay_def sleep_def)

lemma json_load_ok:
  "files w p = Some (JsonText v) \<Longrightarrow> fails en (trace w) (ReadFile p) = None \<Longrightarrow>
   json_load en p w = (Inr v, log_event (ReadFile p) None w)"
  by (simp add: json_load_def load_file_def)

lemma refresh_tail:
  assumes "driver w"
  shows "\<exists>rest. trace (snd (thenE (driver_invoke en Refresh)
                  (thenE (human_delay 3 5) (returnE True)) w))
      = trace w @ rest \<and> map fst (take 1 rest) = [Refresh]"
proof (cases "fails en (trace w) Refresh")
  case None
  then have "trace (snd (thenE (driver_invoke en Refresh)
                  (thenE (human_delay 3 5) (returnE True)) w))
     = trace w @ [(Refresh, None), (Sleep 3000 5000, None)]"
    using assms by (simp add: prog_defs)
  then show ?thesis by simp
next
  case (Some e)
  then have "trace (snd (thenE (driver_invoke en Refresh)
                  (thenE (human_delay 3 5) (returnE True)) w))
     = trace w @ [(Refresh, Some e)]"
    using assms by (simp add: prog_defs)
  then show ?thesis by simp
qed


lemma load_cookies_run:
  assumes "files w (cookies_file b) = Some (JsonText (PList cs))"
    and "fails en (trace w) (Get instagram_url) = None"
    and "fails en (trace w @ [(Get instagram_url, None), (Sleep 2000 3000, None)])
           (ReadFile (cookies_file b)) = None"
    and "driver w"
  shows "load_cookies en b w =
     thenE (add_cookies en cs)
       (thenE (driver_invoke en Refresh) (thenE (human_delay 3 5) (returnE True)))
       (w\<lparr>trace := trace w @ [(Get instagram_url, None), (Sleep 2000 3000, None),
                      (ReadFile (cookies_file b), None)]\<rparr>)"
proof -
  let ?wa = "log_event (Get instagram_url) None w"
  let ?wb = "log_event (Sleep 2000 3000) None ?wa"
  let ?w1 = "log_event (ReadFile (cookies_file b)) None ?wb"
  define after where "after = thenE (driver_invoke en Refresh) (thenE (human_delay 3 5) (returnE True))"
  define k3 where "k3 = (\<lambda>cookies. bindE (lift (py_iter cookies))
       (\<lambda>items. thenE (add_cookies en items) after))"
  define k2 where "k2 = bindE (json_load en (cookies_file b)) k3"
  define k1 where "k1 = thenE (human_delay 2 3) k2"
  have a: "driver_invoke en (Get instagram_url) w = (Inr (), ?wa)"
    using assms(4,2) by (rule driver_invoke_ok)
  have b: "human_delay 2 3 ?wa = (Inr (), ?wb)" by (simp add: human_delay_run)
  have c: "json_load en (cookies_file b) ?wb = (Inr (PList cs), ?w1)"
    by (rule json_load_ok) (use assms(1,3) in \<open>simp_all add: log_event_def\<close>)
  have "load_cookies en b w = thenE (driver_invoke en (Get instagram_url)) k1 w"
    unfolding load_cookies_def ifE_def path_exists_def k1_def k2_def k3_def after_def
    using assms(1) by simp
  also have "\<dots> = k1 ?wa" using a by (simp add: thenE_def bindE_def)
  also have "\<dots> = k2 ?wb" unfolding k1_def using b by (simp add: thenE_def bindE_def)
  also have "\<dots> = k3 (PList cs) ?w1" unfolding k2_def using c by (simp add: bindE_def)
  also have "\<dots> = thenE (add_cookies en cs) after ?w1"
    unfolding k3_def by (simp add: bindE_def lift_def)
  finally show ?thesis by (simp add: after_def log_event_def)
qed


lemma load_cookies_injects_all:
  assumes "files w (cookies_file b) = Some (JsonText (PList cs))"
    and "fails en (trace w) (Get instagram_url) = None"
    and "fails en (trace w @ [(Get instagram_url, None), (Sleep 2000 3000, None)])
           (ReadFile (cookies_file b)) = None"
    and "driver w"
  shows "\<exists>evs rest. trace (snd (load_cookies en b w)) =
           trace w @ [(Get instagram_url, None), (Sleep 2000 3000, None),
                      (ReadFile (cookies_file b), None)] @ evs @ rest
         \<and> map fst evs = map AddCookie cs \<and> map fst (take 1 rest) = [Refresh]"
proof -
  define w1 where "w1 = w\<lparr>trace := trace w @ [(Get instagram_url, None),
      (Sleep 2000 3000, None), (ReadFile (cookies_file b), None)]\<rparr>"
  define after where "after = thenE (driver_invoke en Refresh) (thenE (human_delay 3 5) (returnE True))"
  have d1: "driver w1" using assms(4) by (simp add: w1_def)
  have run: "load_cookies en b w = thenE (add_cookies en cs) after w1"
    unfolding w1_def after_def using assms by (rule load_cookies_run)
  obtain evs where evs: "trace (snd (add_cookies en cs w1)) = trace w1 @ evs"
     "map fst evs = map AddCookie cs" "fst (add_cookies en cs w1) = Inr ()"
    using add_cookies_events[of w1 en cs "\<lambda>_. True"] d1 by blast
  obtain w2 where w2: "add_cookies en cs w1 = (Inr (), w2)"
    using evs(3) by (cases "add_cookies en cs w1") auto
  have d2: "driver w2"
    using same_driverD[OF same_driver_add_cookies, of en cs w1] w2 d1 by simp
  have "\<exists>rest. trace (snd (after w2)) = trace w2 @ rest \<and> map fst (take 1 rest) = [Refresh]"
    unfolding after_def using d2 by (rule refresh_tail)
  then obtain rest where rest: "trace (snd (after w2)) = trace w2 @ rest"
    "map fst (take 1 rest) = [Refresh]"
    by (elim exE conjE)
  have "load_cookies en b w = after w2"
    using run w2 by (simp add: thenE_def bindE_def)
  moreover have "trace w2 = trace w1 @ evs" using evs(1) w2 by simp
  moreover have "trace w1 = trace w @ [(Get instagram_url, None),
      (Sleep 2000 3000, None), (ReadFile (cookies_file b), None)]"
    by (simp add: w1_def)
  ultimately have "trace (snd (load_cookies en b w)) =
           trace w @ [(Get instagram_url, None), (Sleep 2000 3000, None),
                      (ReadFile (cookies_file b), None)] @ evs @ rest"
    using rest(1) by simp
  with evs(2) rest(2) have "trace (snd (load_cookies en b w)) =
           trace w @ [(Get instagram_url, None), (Sleep 2000 3000, None),
                      (ReadFile (cookies_file b), None)] @ evs @ rest
         \<and> map fst evs = map AddCookie cs \<and> map fst (take 1 rest) = [Refresh]"
    by (intro conjI)
  then show ?thesis by (intro exI)
qed

subsection \<open>The logged-in probe\<close>















subsection \<open>The interactive login\<close>


lemma followsE:
  assumes "follows m w F"
  obtains evs rest where "trace (snd (m w)) = trace w @ evs" "map fst evs @ rest = F"
    "\<And>x. fst (m w) = Inr x \<Longrightarrow> rest = []"
proof -
  from assms obtain evs rest where a: "trace (snd (m w)) = trace w @ evs"
    and b: "map fst evs @ rest = F" and c: "\<forall>x. fst (m w) = Inr x \<longrightarrow> rest = []"
    unfolding follows_def by (elim exE conjE)
  show thesis by (rule that[OF a b]) (use c in simp)
qed



































subsection \<open>The script\<close>

lemma main_missing_credentials:
  assumes "fails en (trace w) LoadDotenv = None"
    and "missing_vars
          [(''username'', getenv en ''INSTAGRAM_USERNAME''),
           (''password'', getenv en ''INSTAGRAM_PASSWORD''),
           (''buffer_token'', getenv en ''BUFFER_ACCESS_TOKEN''),
           (''buffer_profile_id'', getenv en ''BUFFER_PROFILE_ID'')] \<noteq> []"
  shows "main en w = (Inr 1, log_event LoadDotenv None w)"
  using assms
  by (simp add: main_def setup_environment_variables_def bindE_def thenE_def invoke_def ask_def
      returnE_def)

lemma main_exit_code:
  assumes "fst (main en w) = Inr n"
  shows "n = 0 \<or> n = 1"
  using assms
  by (auto simp: main_def bindE_def thenE_def returnE_def
      split: prod.splits sum.splits if_splits)

section \<open>Claims\<close>

text \<open>
  C9. \<^verbatim>\<open>smart_login\<close> ignores the result of \<^verbatim>\<open>save_session\<close>: when the driver was set
  up, the probe said "not logged in" and the interactive login succeeded, \<^verbatim>\<open>smart_login\<close>
  returns true even though \<^verbatim>\<open>save_session\<close> returned false, and it ends in the state
  \<^verbatim>\<open>save_session\<close> left.
\<close>

theorem smart_login_ignores_save_failure:
  assumes "fst (setup_driver en b True False None w) = Inr ()"
    and "fst (is_logged_in en (after_load en b w)) = Inr False"
    and "fst (login_instagram en b (after_probe en b w)) = Inr True"
    and "fst (save_session en b (after_login en b w)) = Inr False"
  shows "smart_login en b w = (Inr True, snd (save_session en b (after_login en b w)))"
  using assms by (simp add: smart_login_unfold)

theorem smart_login_ignores_save_failure_witness:
  "fst (save_session env_save_fails bot0 (after_login env_save_fails bot0 world0)) = Inr False
   \<and> fst (smart_login env_save_fails bot0 world0) = Inr True"
  using smart_login_ignores_save_failure [of env_save_fails bot0 world0]
  by (simp add: run_defs prog_defs env_save_fails_def)

text \<open>
  C1. When the driver was set up and \<^verbatim>\<open>is_logged_in\<close>, run after \<^verbatim>\<open>load_session\<close>,
  returns true, \<^verbatim>\<open>smart_login\<close> returns true in the state the probe left: nothing runs
  after the probe. None of the calls it made opens the login page or types a key, while
  \<^verbatim>\<open>login_instagram\<close>, with a driver, always begins by opening the login page (lemma
  \<open>login_instagram_first_event\<close>), so the credential-entry path was not entered.
\<close>

theorem smart_login_resumes_session:
  assumes "fst (setup_driver en b True False None w) = Inr ()"
    and "fst (is_logged_in en (after_load en b w)) = Inr True"
  shows "smart_login en b w = (Inr True, after_probe en b w)
       \<and> list_all (\<lambda>ev. \<not> credential_entry (fst ev)) (new_events w (snd (smart_login en b w)))"
proof -
  let ?P = "\<lambda>c. \<not> credential_entry c"
  have run: "smart_login en b w = (Inr True, after_probe en b w)"
    using assms by (simp add: smart_login_unfold)
  have 1: "appends ?P w (after_setup en b w)"
    unfolding after_setup_def by (rule preservesD, rule appends_setup_driver) simp_all
  have 2: "appends ?P (after_setup en b w) (after_load en b w)"
    unfolding after_load_def
    by (rule preservesD, rule appends_load_session)
       (simp_all add: instagram_url_not_login_url)
  have 3: "appends ?P (after_load en b w) (after_probe en b w)"
    unfolding after_probe_def is_logged_in_def
    by (rule preservesD, rule appends_is_logged_in_with)
       (simp_all add: instagram_url_not_login_url)
  have "appends ?P w (after_probe en b w)"
    using 1 2 3 by (blast intro: appends_chain)
  then have "list_all (\<lambda>ev. ?P (fst ev)) (new_events w (after_probe en b w))"
    by (rule appends_new_events)
  then show ?thesis using run by simp
qed

theorem smart_login_resumes_session_witness:
  "fst (smart_login env_ok bot0 world0) = Inr True
   \<and> list_all (\<lambda>ev. \<not> credential_entry (fst ev))
        (new_events world0 (snd (smart_login env_ok bot0 world0)))"
  using smart_login_resumes_session [of env_ok bot0 world0]
  by (simp add: run_defs prog_defs env_ok_def)

text \<open>
  C2. When the driver was set up, \<^verbatim>\<open>is_logged_in\<close> returned false and
  \<^verbatim>\<open>login_instagram\<close> returned false, \<^verbatim>\<open>smart_login\<close> returns false in the state the
  login left, every file is as it was before, and no call of \<^verbatim>\<open>save_session\<close> (reading the
  browser's cookies, opening or writing a file) was made.
\<close>

theorem smart_login_failure_writes_nothing:
  assumes "fst (setup_driver en b True False None w) = Inr ()"
    and "fst (is_logged_in en (after_load en b w)) = Inr False"
    and "fst (login_instagram en b (after_probe en b w)) = Inr False"
  shows "smart_login en b w = (Inr False, after_login en b w)
       \<and> files (snd (smart_login en b w)) = files w
       \<and> list_all (\<lambda>ev. \<not> persistence_call (fst ev)) (new_events w (snd (smart_login en b w)))"
proof -
  let ?P = "\<lambda>c. \<not> persistence_call c"
  have run: "smart_login en b w = (Inr False, after_login en b w)"
    using assms by (simp add: smart_login_unfold)
  have 1: "appends ?P w (after_setup en b w)"
    unfolding after_setup_def by (rule preservesD, rule appends_setup_driver) simp_all
  have 2: "appends ?P (after_setup en b w) (after_load en b w)"
    unfolding after_load_def by (rule preservesD, rule appends_load_session) simp_all
  have 3: "appends ?P (after_load en b w) (after_probe en b w)"
    unfolding after_probe_def is_logged_in_def
    by (rule preservesD, rule appends_is_logged_in_with) simp_all
  have 4: "appends ?P (after_probe en b w) (after_login en b w)"
    unfolding after_login_def by (rule preservesD, rule appends_login_instagram) simp_all
  have ev: "appends ?P w (after_login en b w)"
    using 1 2 3 4 by (blast intro: appends_chain)
  have "same_files w (after_setup en b w)"
    unfolding after_setup_def by (rule preservesD, rule same_files_setup_driver)
  moreover have "same_files (after_setup en b w) (after_load en b w)"
    unfolding after_load_def by (rule preservesD, rule same_files_load_session)
  moreover have "same_files (after_load en b w) (after_probe en b w)"
    unfolding after_probe_def is_logged_in_def
    by (rule preservesD, rule same_files_is_logged_in_with)
  moreover have "same_files (after_probe en b w) (after_login en b w)"
    unfolding after_login_def by (rule preservesD, rule same_files_login_instagram)
  ultimately have "files (after_login en b w) = files w"
    by (simp add: same_files_def)
  moreover have "list_all (\<lambda>ev. ?P (fst ev)) (new_events w (after_login en b w))"
    using ev by (rule appends_new_events)
  ultimately show ?thesis using run by simp
qed

theorem smart_login_failure_writes_nothing_witness:
  "fst (smart_login env_locked_out bot0 world0) = Inr False
   \<and> files (snd (smart_login env_locked_out bot0 world0)) = files world0"
  using smart_login_failure_writes_nothing [of env_locked_out bot0 world0]
  by (simp add: run_defs prog_defs env_locked_out_def)

text \<open>
  C10. \<^verbatim>\<open>add_to_buffer_fixed\<close> never raises. It returns true exactly when the message has a
  non-empty URL, the POST to Buffer did not raise and its status code is 200; in that case
  the message id is added to \<^verbatim>\<open>processed_messages\<close>, and in every other case
  \<^verbatim>\<open>processed_messages\<close> is unchanged.
\<close>

theorem add_to_buffer_fixed_marks_on_200:
  "fst (add_to_buffer_fixed en b m w) = Inr (publish_succeeds en b m w)
   \<and> processed_messages (snd (add_to_buffer_fixed en b m w)) =
       (if publish_succeeds en b m w
        then set_add (HStr (msg_id m)) (processed_messages w)
        else processed_messages w)"
  by (auto simp: add_to_buffer_fixed_def publish_succeeds_def add_processed_def prog_defs
      split: option.splits)

theorem add_to_buffer_fixed_marks_on_200_witness:
  "fst (add_to_buffer_fixed env_ok bot0 message0 world0) = Inr True
   \<and> processed_messages (snd (add_to_buffer_fixed env_ok bot0 message0 world0)) = [HStr ''0_1'']"
  using add_to_buffer_fixed_marks_on_200 [of env_ok bot0 message0 world0]
  by (simp add: publish_succeeds_def message0_def env_ok_def env_with_def world0_def
      set_add_def)



text \<open>
  C7. If \<^verbatim>\<open>save_session\<close> returns true, then \<^verbatim>\<open>load_session\<close>, run in any state whose
  session file is the one just written (a later run of the program, with any set in
  memory) and in which reading that file meets no I/O error, leaves in
  \<^verbatim>\<open>processed_messages\<close> exactly the set that was saved.
\<close>

theorem save_then_load_roundtrip:
  assumes "fst (save_session en b w) = Inr True"
    and "files w2 (session_file b) = files (snd (save_session en b w)) (session_file b)"
    and "fails en2 (trace w2) (ReadFile (session_file b)) = None"
  shows "set (processed_messages (snd (load_session en2 b w2))) = set (processed_messages w)"
proof -
  obtain t u c where f: "files w2 (session_file b) =
           Some (Pickled (PDict
                    [(''last_login'', PStr t),
                     (''user_agent'', PStr u),
                     (''current_url'', PStr c),
                     (''processed_messages'', PList (map of_key (processed_messages w)))]))"
    using save_session_success[OF assms(1)] assms(2) by auto
  have "processed_messages (snd (load_session_info en2 b w2)) = remdups (processed_messages w)"
    using f assms(3)
    by (simp add: load_session_info_def pickle_load_def load_file_def path_exists_def
        set_processed_def py_set_stored prog_defs)
  then show ?thesis by (simp add: load_session_processed)
qed

theorem save_then_load_roundtrip_witness:
  "fst (save_session env_ok bot0 (world_ready\<lparr>processed_messages := message_set\<rparr>)) = Inr True
   \<and> set (processed_messages
        (snd (load_session env_ok bot0
           (world_fresh (snd (save_session env_ok bot0
               (world_ready\<lparr>processed_messages := message_set\<rparr>)))))))
     = set message_set"
  using save_then_load_roundtrip [of env_ok bot0 "world_ready\<lparr>processed_messages := message_set\<rparr>"
      "world_fresh (snd (save_session env_ok bot0 (world_ready\<lparr>processed_messages := message_set\<rparr>)))"
      env_ok]
  by (simp add: world_fresh_def message_set_def save_session_def dump_file_def open_write_def
      write_data_def now_def processed_list_def session_file_def cookies_file_def
      env_ok_def env_with_def bot0_def world_ready_def prog_defs)

text \<open>
  C5. With a driver attached, as it is where \<^verbatim>\<open>load_session\<close> reaches the loop (the
  loop comes after \<^verbatim>\<open>driver.get\<close> succeeded), the cookie loop never raises and calls
  \<^verbatim>\<open>add_cookie\<close> once for every cookie of the list, in order, whatever the earlier calls
  did. When the driver accepts exactly the well-formed cookies, the cookies injected are
  the well-formed ones, in their order; the malformed ones are skipped. In
  \<^verbatim>\<open>load_session\<close> the loop is followed by the refresh of the page (lemma
  \<open>load_cookies_injects_all\<close>).
\<close>

theorem add_cookies_skips_malformed:
  assumes "\<forall>h c. (fails en h (AddCookie c) = None) = well_formed c"
    and "driver w"
  shows "fst (add_cookies en cs w) = Inr ()
       \<and> map fst (new_events w (snd (add_cookies en cs w))) = map AddCookie cs
       \<and> injected (new_events w (snd (add_cookies en cs w))) = filter well_formed cs"
proof -
  obtain evs where "trace (snd (add_cookies en cs w)) = trace w @ evs"
     "map fst evs = map AddCookie cs" "fst (add_cookies en cs w) = Inr ()"
     "injected evs = filter well_formed cs"
    using add_cookies_events[OF assms(2), of en cs well_formed] assms(1) by blast
  then show ?thesis by (simp add: new_events_def)
qed

theorem add_cookies_skips_malformed_witness:
  "(\<forall>h c. (fails env_rejects_bad h (AddCookie c) = None) = (c \<noteq> cookie_bad))
   \<and> driver world_ready
   \<and> fst (add_cookies env_rejects_bad [cookie_good ''a'', cookie_bad, cookie_good ''b'']
          world_ready)
       = Inr ()
   \<and> injected (new_events world_ready
        (snd (add_cookies env_rejects_bad [cookie_good ''a'', cookie_bad, cookie_good ''b'']
           world_ready)))
       = [cookie_good ''a'', cookie_good ''b'']"
  using add_cookies_skips_malformed [of env_rejects_bad "\<lambda>c. c \<noteq> cookie_bad" world_ready
      "[cookie_good ''a'', cookie_bad, cookie_good ''b'']"]
  by (simp add: env_rejects_bad_def env_with_def cookie_bad_def cookie_good_def
      world_ready_def)







text \<open>
  C8. When a credential or a token is missing the script ends with exit code 1 after
  reading the environment, before any browser call (lemma \<open>main_missing_credentials\<close>),
  and whenever it ends through \<^verbatim>\<open>sys.exit\<close> the code is 0 or 1 (lemma
  \<open>main_exit_code\<close>). But an exception can reach the process boundary: in a run where
  every step succeeds and \<^verbatim>\<open>driver.quit()\<close> raises in the \<^verbatim>\<open>finally\<close> clause of
  \<^verbatim>\<open>run_scheduled_check\<close>, nothing catches it, and the script ends with that exception
  instead of an exit code computed from the boolean result.
\<close>

theorem main_uncaught_quit_failure:
  "fst (main env_quit_fails world0) = Inl WebDriverException"
  by (simp add: main_def setup_environment_variables_def missing_vars_def bot_of_def
      config_value_def new_bot_def test_buffer_connection_def bearer_def
      run_scheduled_check_def quit_driver_def navigate_to_dms_def get_new_messages_def
      enumerate_def save_session_def dump_file_def open_write_def
      write_data_def now_def processed_list_def
      smart_login_def setup_driver_def load_session_def load_session_info_def
      load_cookies_def is_logged_in_def is_logged_in_with_def
      choose_viewport_def set_driver_def path_exists_def session_file_def cookies_file_def
      logged_in_indicators_def login_indicators_def
      env_quit_fails_def env_with_def world0_def prog_defs)

end
